theory Spec2Isabelle
  imports Complex_Main "HOL-Library.Word" "HOL-Library.AList" "HOL-Library.Char_ord"
    "HOL-Library.List_Lexorder"
begin

section \<open>Time, durations and options\<close>

text \<open>
  A \<open>time.Time\<close> is an instant, counted in nanoseconds from the zero value
  \<open>time.Time{}\<close>; a \<open>time.Duration\<close> is a signed 64-bit count of nanoseconds.
  \<open>Time.Sub\<close> saturates at the largest and the smallest duration.  Every call of
  \<open>time.Now()\<close> in the source is an explicit argument \<open>now\<close> of the function that
  makes the call.
\<close>

type_synonym Time = int
type_synonym Duration = int

definition maxDuration :: Duration where
  "maxDuration = 2 ^ 63 - 1"

definition minDuration :: Duration where
  "minDuration = - (2 ^ 63)"

definition Second :: Duration where
  "Second = 1000000000"

definition Minute :: Duration where
  "Minute = 60 * Second"

definition Sub :: "Time \<Rightarrow> Time \<Rightarrow> Duration" where
  "Sub t u =
     (let d = t - u
      in if d > maxDuration then maxDuration
         else if d < minDuration then minDuration
         else d)"

definition IsZero :: "Time \<Rightarrow> bool" where
  "IsZero t = (t = 0)"

record AlertOpts =
  HoldDuration :: Duration
  KeepFiringFor :: Duration
  ResendDelay :: Duration
  RecoverDuration :: Duration
  AutoRecoverAfter :: Duration

text \<open>The durations of a rule are non-negative and fit the 64-bit type.\<close>

definition duration_ok :: "Duration \<Rightarrow> bool" where
  "duration_ok d = (0 \<le> d \<and> d \<le> maxDuration)"

definition opts_ok :: "AlertOpts \<Rightarrow> bool" where
  "opts_ok opts =
     (duration_ok (HoldDuration opts) \<and> duration_ok (KeepFiringFor opts) \<and>
      duration_ok (ResendDelay opts) \<and> duration_ok (RecoverDuration opts) \<and>
      duration_ok (AutoRecoverAfter opts))"

section \<open>Alert types, states and events\<close>

abbreviation AlertTypeBasic :: string where "AlertTypeBasic \<equiv> ''basic''"
abbreviation AlertTypeMultiTier :: string where "AlertTypeMultiTier \<equiv> ''multi-tier''"
abbreviation AlertTypeCustom :: string where "AlertTypeCustom \<equiv> ''custom''"

abbreviation AlertStateInactive :: string where "AlertStateInactive \<equiv> ''inactive''"
abbreviation AlertStatePending :: string where "AlertStatePending \<equiv> ''pending''"
abbreviation AlertStateFiring :: string where "AlertStateFiring \<equiv> ''firing''"
abbreviation AlertStateL0 :: string where "AlertStateL0 \<equiv> ''l0''"
abbreviation AlertStateL1 :: string where "AlertStateL1 \<equiv> ''l1''"
abbreviation AlertStateL2 :: string where "AlertStateL2 \<equiv> ''l2''"
abbreviation AlertStateL3 :: string where "AlertStateL3 \<equiv> ''l3''"

abbreviation EventTrigger :: string where "EventTrigger \<equiv> ''trigger''"
abbreviation EventRecover :: string where "EventRecover \<equiv> ''recover''"
abbreviation EventFire :: string where "EventFire \<equiv> ''fire''"
abbreviation EventResolve :: string where "EventResolve \<equiv> ''resolve''"

datatype error =
    InvalidEventError string string
  | UnknownEventError string
  | NoTransitionError
  | UnsupportedAlertType string
  | EmptyNameOrExpr
  | NegativeDurations
  | QueryError string
  | UnsupportedValueError
  | UnmarshalError

section \<open>The event-driven state machine the two variants are built on\<close>

text \<open>
  Both variants hold a \<open>fsm.FSM\<close> of the library \<open>looplab/fsm\<close>: a current state (a
  string) and a table from (event, source state) to destination state, built from the
  list of event descriptions, a later description overriding an earlier one.
  \<open>Event\<close> looks the pair up.  When the pair is missing it fails with
  \<open>InvalidEventError\<close> if some description carries the event's name and with
  \<open>UnknownEventError\<close> otherwise; when the destination is the current state it fails
  with \<open>NoTransitionError\<close>; otherwise it sets the current state and runs the
  enter-state callbacks.  The callbacks of the two variants write fields of the
  enclosing struct, so each variant below applies its own callbacks after the lookup.
\<close>

type_synonym EventDesc = "string \<times> string list \<times> string"

fun fsm_transitions :: "EventDesc list \<Rightarrow> string \<times> string \<Rightarrow> string option" where
  "fsm_transitions [] k = None"
| "fsm_transitions ((name, srcs, dst) # es) k =
     (case fsm_transitions es k of
        Some d \<Rightarrow> Some d
      | None \<Rightarrow> if fst k = name \<and> snd k \<in> set srcs then Some dst else None)"

definition fsm_Event :: "EventDesc list \<Rightarrow> string \<Rightarrow> string \<Rightarrow> error + string" where
  "fsm_Event events cur event =
     (case fsm_transitions events (event, cur) of
        Some dst \<Rightarrow> if cur = dst then Inl NoTransitionError else Inr dst
      | None \<Rightarrow>
          if event \<in> set (map fst events) then Inl (InvalidEventError event cur)
          else Inl (UnknownEventError event))"

section \<open>The Basic variant: PromAlertFsm\<close>

record PromAlertFsm =
  p_current :: string
  activeAt :: Time
  firedAt :: Time
  p_lastSentAt :: Time

definition prom_events :: "EventDesc list" where
  "prom_events =
     [(EventTrigger, [AlertStateInactive], AlertStatePending),
      (EventFire, [AlertStatePending, AlertStateInactive], AlertStateFiring),
      (EventResolve, [AlertStatePending, AlertStateFiring], AlertStateInactive)]"

definition prom_callbacks :: "Time \<Rightarrow> string \<Rightarrow> string \<Rightarrow> PromAlertFsm \<Rightarrow> PromAlertFsm" where
  "prom_callbacks now src dst a =
     (if dst = AlertStatePending then a\<lparr>activeAt := now\<rparr>
      else if dst = AlertStateFiring then a\<lparr>firedAt := now\<rparr>
      else if dst = AlertStateInactive then
        (if src = AlertStateFiring then a\<lparr>firedAt := 0\<rparr> else a)
      else a)"

definition NewPromAlertFsm :: PromAlertFsm where
  "NewPromAlertFsm =
     \<lparr>p_current = AlertStateInactive, activeAt = 0, firedAt = 0, p_lastSentAt = 0\<rparr>"

definition prom_Event :: "Time \<Rightarrow> string \<Rightarrow> PromAlertFsm \<Rightarrow> error + PromAlertFsm" where
  "prom_Event now event a =
     (case fsm_Event prom_events (p_current a) event of
        Inl e \<Rightarrow> Inl e
      | Inr dst \<Rightarrow> Inr (prom_callbacks now (p_current a) dst (a\<lparr>p_current := dst\<rparr>)))"

definition PromAlertFsm_State :: "PromAlertFsm \<Rightarrow> string" where
  "PromAlertFsm_State a = p_current a"

text \<open>
  \<open>Transition\<close> returns the pair (notify, error) of the source together with the
  machine after the call; \<open>now\<close> is what \<open>time.Now()\<close> returns inside the callback.
\<close>

definition PromAlertFsm_Transition ::
  "Time \<Rightarrow> bool \<Rightarrow> Time \<Rightarrow> AlertOpts \<Rightarrow> PromAlertFsm \<Rightarrow> (bool \<times> error option) \<times> PromAlertFsm" where
  "PromAlertFsm_Transition now active ts opts a =
     (let current = p_current a in
      if \<not> active \<and> current \<noteq> AlertStateInactive then
        (case prom_Event now EventResolve a of
           Inl err \<Rightarrow> ((False, Some err), a)
         | Inr a' \<Rightarrow> ((True, None), a'))
      else if active \<and> current = AlertStateInactive then
        (if HoldDuration opts = 0 then
           (case prom_Event now EventFire a of
              Inl err \<Rightarrow> ((False, Some err), a)
            | Inr a' \<Rightarrow> ((True, None), a'\<lparr>p_lastSentAt := ts\<rparr>))
         else
           (case prom_Event now EventTrigger a of
              Inl err \<Rightarrow> ((False, Some err), a)
            | Inr a' \<Rightarrow> ((False, None), a')))
      else if active \<and> current = AlertStatePending then
        (if Sub ts (activeAt a) < HoldDuration opts then ((False, None), a)
         else
           (case prom_Event now EventFire a of
              Inl err \<Rightarrow> ((False, Some err), a)
            | Inr a' \<Rightarrow> ((True, None), a'\<lparr>p_lastSentAt := ts\<rparr>)))
      else if active \<and> current = AlertStateFiring then
        (if KeepFiringFor opts > 0 \<and> Sub ts (firedAt a) \<ge> KeepFiringFor opts then
           (case prom_Event now EventResolve a of
              Inl err \<Rightarrow> ((False, Some err), a)
            | Inr a' \<Rightarrow> ((True, None), a'))
         else if ResendDelay opts > 0 \<and> Sub ts (p_lastSentAt a) \<ge> ResendDelay opts then
           ((True, None), a\<lparr>p_lastSentAt := ts\<rparr>)
         else ((False, None), a))
      else ((False, None), a))"

section \<open>The Degrade variant: DegradeFsm\<close>

text \<open>
  \<open>stateEnteredAt\<close> is the Go map from state to entry time; reading a missing key
  gives the zero time.
\<close>

record DegradeFsm =
  d_current :: string
  stateEnteredAt :: "string \<rightharpoonup> Time"
  d_lastSentAt :: Time

definition degrade_events :: "EventDesc list" where
  "degrade_events =
     [(EventTrigger, [AlertStateL0], AlertStateL1),
      (EventTrigger, [AlertStateL1], AlertStateL2),
      (EventTrigger, [AlertStateL2], AlertStateL3),
      (EventRecover, [AlertStateL3], AlertStateL2),
      (EventRecover, [AlertStateL2], AlertStateL1),
      (EventRecover, [AlertStateL1], AlertStateL0),
      (EventResolve, [AlertStateL1, AlertStateL2, AlertStateL3], AlertStateL0)]"

definition NewDegradeFsm :: "Time \<Rightarrow> DegradeFsm" where
  "NewDegradeFsm now =
     \<lparr>d_current = AlertStateL0, stateEnteredAt = [AlertStateL0 \<mapsto> now], d_lastSentAt = 0\<rparr>"

definition enteredAt :: "DegradeFsm \<Rightarrow> string \<Rightarrow> Time" where
  "enteredAt d s = (case stateEnteredAt d s of None \<Rightarrow> 0 | Some t \<Rightarrow> t)"

definition degrade_Event :: "Time \<Rightarrow> string \<Rightarrow> DegradeFsm \<Rightarrow> error + DegradeFsm" where
  "degrade_Event now event d =
     (case fsm_Event degrade_events (d_current d) event of
        Inl e \<Rightarrow> Inl e
      | Inr dst \<Rightarrow>
          Inr (d\<lparr>d_current := dst, stateEnteredAt := (stateEnteredAt d)(dst \<mapsto> now)\<rparr>))"

definition checkResend :: "Time \<Rightarrow> AlertOpts \<Rightarrow> DegradeFsm \<Rightarrow> bool \<times> DegradeFsm" where
  "checkResend ts opts d =
     (if ResendDelay opts = 0 then (False, d)
      else if Sub ts (d_lastSentAt d) \<ge> ResendDelay opts then (True, d\<lparr>d_lastSentAt := ts\<rparr>)
      else (False, d))"

definition handleDegradation ::
  "Time \<Rightarrow> string \<Rightarrow> Time \<Rightarrow> AlertOpts \<Rightarrow> DegradeFsm \<Rightarrow> (bool \<times> error option) \<times> DegradeFsm" where
  "handleDegradation now current ts opts d =
     (if current = AlertStateL3 then
        (case checkResend ts opts d of (b, d') \<Rightarrow> ((b, None), d'))
      else if Sub ts (enteredAt d current) < HoldDuration opts then ((False, None), d)
      else
        (case degrade_Event now EventTrigger d of
           Inl err \<Rightarrow> ((False, Some err), d)
         | Inr d' \<Rightarrow> ((True, None), d'\<lparr>d_lastSentAt := ts\<rparr>)))"

definition handleRecovery ::
  "Time \<Rightarrow> string \<Rightarrow> Time \<Rightarrow> AlertOpts \<Rightarrow> DegradeFsm \<Rightarrow> (bool \<times> error option) \<times> DegradeFsm" where
  "handleRecovery now current ts opts d =
     (if AutoRecoverAfter opts > 0 \<and> Sub ts (enteredAt d current) \<ge> AutoRecoverAfter opts then
        (case degrade_Event now EventResolve d of
           Inl err \<Rightarrow> ((False, Some err), d)
         | Inr d' \<Rightarrow> ((True, None), d'\<lparr>d_lastSentAt := ts\<rparr>))
      else if Sub ts (enteredAt d current) < RecoverDuration opts then ((False, None), d)
      else
        (case degrade_Event now EventRecover d of
           Inl err \<Rightarrow> ((False, Some err), d)
         | Inr d' \<Rightarrow> ((True, None), d'\<lparr>d_lastSentAt := ts\<rparr>)))"

definition DegradeFsm_State :: "DegradeFsm \<Rightarrow> string" where
  "DegradeFsm_State d = d_current d"

definition DegradeFsm_Transition ::
  "Time \<Rightarrow> bool \<Rightarrow> Time \<Rightarrow> AlertOpts \<Rightarrow> DegradeFsm \<Rightarrow> (bool \<times> error option) \<times> DegradeFsm" where
  "DegradeFsm_Transition now active ts opts d =
     (let state = d_current d in
      if active then handleDegradation now state ts opts d
      else if \<not> active \<and> state \<noteq> AlertStateL0 then handleRecovery now state ts opts d
      else ((False, None), d))"

section \<open>Label sets, values and snapshots\<close>

text \<open>
  A \<open>labels.Labels\<close> is a list of (name, value) pairs sorted by name, without
  duplicate names.  A \<open>labels.Builder\<close> is modelled by the label set it stands for:
  \<open>Get\<close> of a missing name is the empty string, \<open>Set\<close> with an empty value deletes,
  and \<open>Labels()\<close> sorts.  \<open>Hash\<close> is an argument \<open>H\<close> of the functions that call it.
\<close>

type_synonym Labels = "(string \<times> string) list"
type_synonym fingerprint = "64 word"

abbreviation MetricName :: string where "MetricName \<equiv> ''__name__''"
abbreviation AlertName :: string where "AlertName \<equiv> ''alertname''"

definition NewBuilder :: "Labels \<Rightarrow> Labels" where
  "NewBuilder base = filter (\<lambda>l. snd l \<noteq> []) base"

definition builder_Get :: "Labels \<Rightarrow> string \<Rightarrow> string" where
  "builder_Get b n = (case map_of b n of None \<Rightarrow> [] | Some v \<Rightarrow> v)"

definition builder_Del :: "Labels \<Rightarrow> string \<Rightarrow> Labels" where
  "builder_Del b n = AList.delete n b"

definition builder_Set :: "Labels \<Rightarrow> string \<Rightarrow> string \<Rightarrow> Labels" where
  "builder_Set b n v = (if v = [] then builder_Del b n else AList.update n v b)"

definition builder_Labels :: "Labels \<Rightarrow> Labels" where
  "builder_Labels b = sort_key fst b"

definition EmptyLabels :: Labels where
  "EmptyLabels = []"

definition labels_Map :: "Labels \<Rightarrow> (string \<rightharpoonup> string)" where
  "labels_Map ls = map_of ls"

text \<open>
  A \<open>float64\<close> is only stored, copied and encoded here; what matters is whether it is
  a number that JSON can write.
\<close>

datatype float64 = Finite real | PosInf | NegInf | NaN

definition isFinite :: "float64 \<Rightarrow> bool" where
  "isFinite v = (case v of Finite x \<Rightarrow> True | _ \<Rightarrow> False)"

record AlertSnapshot =
  State :: string
  ActiveAt :: Time
  FiredAt :: Time
  LastSentAt :: Time
  StateEnteredAt :: "string \<rightharpoonup> Time"

definition PromAlertFsm_Snapshot :: "PromAlertFsm \<Rightarrow> AlertSnapshot" where
  "PromAlertFsm_Snapshot a =
     \<lparr>State = p_current a, ActiveAt = activeAt a, FiredAt = firedAt a,
      LastSentAt = p_lastSentAt a, StateEnteredAt = Map.empty\<rparr>"

definition PromAlertFsm_Restore :: "AlertSnapshot \<Rightarrow> PromAlertFsm \<Rightarrow> error option \<times> PromAlertFsm" where
  "PromAlertFsm_Restore snap a =
     (None, a\<lparr>activeAt := ActiveAt snap, firedAt := FiredAt snap,
               p_lastSentAt := LastSentAt snap, p_current := State snap\<rparr>)"

definition DegradeFsm_Snapshot :: "DegradeFsm \<Rightarrow> AlertSnapshot" where
  "DegradeFsm_Snapshot d =
     \<lparr>State = DegradeFsm_State d, ActiveAt = 0, FiredAt = 0,
      LastSentAt = d_lastSentAt d, StateEnteredAt = stateEnteredAt d\<rparr>"

definition DegradeFsm_Restore :: "AlertSnapshot \<Rightarrow> DegradeFsm \<Rightarrow> error option \<times> DegradeFsm" where
  "DegradeFsm_Restore snap d =
     (None, d\<lparr>stateEnteredAt := StateEnteredAt snap, d_lastSentAt := LastSentAt snap,
               d_current := State snap\<rparr>)"

section \<open>The interface IFsm and the Alert around it\<close>

datatype IFsm = Basic PromAlertFsm | Degrade DegradeFsm

definition NewFsm :: "Time \<Rightarrow> string \<Rightarrow> error + IFsm" where
  "NewFsm now typ =
     (if typ = AlertTypeBasic then Inr (Basic NewPromAlertFsm)
      else if typ = AlertTypeMultiTier then Inr (Degrade (NewDegradeFsm now))
      else Inl (UnsupportedAlertType typ))"

fun Fsm_Transition ::
  "Time \<Rightarrow> bool \<Rightarrow> Time \<Rightarrow> AlertOpts \<Rightarrow> IFsm \<Rightarrow> (bool \<times> error option) \<times> IFsm" where
  "Fsm_Transition now active ts opts (Basic a) =
     (case PromAlertFsm_Transition now active ts opts a of (res, a') \<Rightarrow> (res, Basic a'))"
| "Fsm_Transition now active ts opts (Degrade d) =
     (case DegradeFsm_Transition now active ts opts d of (res, d') \<Rightarrow> (res, Degrade d'))"

fun Fsm_Snapshot :: "IFsm \<Rightarrow> AlertSnapshot" where
  "Fsm_Snapshot (Basic a) = PromAlertFsm_Snapshot a"
| "Fsm_Snapshot (Degrade d) = DegradeFsm_Snapshot d"

fun Fsm_Restore :: "AlertSnapshot \<Rightarrow> IFsm \<Rightarrow> error option \<times> IFsm" where
  "Fsm_Restore snap (Basic a) =
     (case PromAlertFsm_Restore snap a of (e, a') \<Rightarrow> (e, Basic a'))"
| "Fsm_Restore snap (Degrade d) =
     (case DegradeFsm_Restore snap d of (e, d') \<Rightarrow> (e, Degrade d'))"

fun Fsm_State :: "IFsm \<Rightarrow> string" where
  "Fsm_State (Basic a) = PromAlertFsm_State a"
| "Fsm_State (Degrade d) = DegradeFsm_State d"

record Alert =
  labels :: Labels
  a_typ :: string
  opt :: AlertOpts
  Value :: float64
  fsm :: IFsm

definition NewAlert :: "Time \<Rightarrow> string \<Rightarrow> Labels \<Rightarrow> AlertOpts \<Rightarrow> error + Alert" where
  "NewAlert now t lbs opts =
     (case NewFsm now t of
        Inl err \<Rightarrow> Inl err
      | Inr f \<Rightarrow> Inr \<lparr>labels = lbs, a_typ = t, opt = opts, Value = Finite 0, fsm = f\<rparr>)"

definition Alert_Transition ::
  "Time \<Rightarrow> bool \<Rightarrow> Time \<Rightarrow> Alert \<Rightarrow> (bool \<times> error option) \<times> Alert" where
  "Alert_Transition now active ts a =
     (case Fsm_Transition now active ts (opt a) (fsm a) of (res, f') \<Rightarrow> (res, a\<lparr>fsm := f'\<rparr>))"

definition Alert_State :: "Alert \<Rightarrow> string" where
  "Alert_State a = Fsm_State (fsm a)"

definition SetValue :: "float64 \<Rightarrow> Alert \<Rightarrow> Alert" where
  "SetValue v a = a\<lparr>Value := v\<rparr>"

definition GetValue :: "Alert \<Rightarrow> float64" where
  "GetValue a = Value a"

definition Alert_Labels :: "Alert \<Rightarrow> Labels" where
  "Alert_Labels a = labels a"

definition Alert_Snapshot :: "Alert \<Rightarrow> AlertSnapshot" where
  "Alert_Snapshot a = Fsm_Snapshot (fsm a)"

section \<open>Serialization\<close>

text \<open>
  \<open>Marshal\<close> and \<open>Restore\<close> go through \<open>encoding/json\<close>, which is not part of the
  repository.  Its work on an \<open>alertPersisted\<close> is split in two: the check that the
  value can be written at all (\<open>json.Marshal\<close> fails with an \<open>UnsupportedValueError\<close>
  on NaN and on the infinities), and the text layer, a pair of functions \<open>enc\<close> and
  \<open>dec\<close> between records and byte strings of some type \<open>'b\<close>, which the functions
  below take as arguments.
\<close>

record alertPersisted =
  pLabels :: Labels
  pValue :: float64
  pSnapshot :: AlertSnapshot
  pTyp :: string

definition json_Marshal :: "(alertPersisted \<Rightarrow> 'b) \<Rightarrow> alertPersisted \<Rightarrow> error + 'b" where
  "json_Marshal enc p = (if isFinite (pValue p) then Inr (enc p) else Inl UnsupportedValueError)"

definition json_Unmarshal :: "('b \<Rightarrow> alertPersisted option) \<Rightarrow> 'b \<Rightarrow> error + alertPersisted" where
  "json_Unmarshal dec data = (case dec data of None \<Rightarrow> Inl UnmarshalError | Some p \<Rightarrow> Inr p)"

definition Alert_Marshal :: "(alertPersisted \<Rightarrow> 'b) \<Rightarrow> Alert \<Rightarrow> error + 'b" where
  "Alert_Marshal enc a =
     json_Marshal enc
       \<lparr>pLabels = labels a, pValue = Value a, pSnapshot = Fsm_Snapshot (fsm a), pTyp = a_typ a\<rparr>"

text \<open>
  \<open>Restore\<close> overwrites the receiver \<open>a\<close> field by field; \<open>now\<close> is the clock reading of
  \<open>NewDegradeFsm\<close> inside \<open>NewFsm\<close>.
\<close>

definition Alert_Restore ::
  "('b \<Rightarrow> alertPersisted option) \<Rightarrow> Time \<Rightarrow> 'b \<Rightarrow> AlertOpts \<Rightarrow> Alert \<Rightarrow> error option \<times> Alert" where
  "Alert_Restore dec now data opts a =
     (case json_Unmarshal dec data of
        Inl err \<Rightarrow> (Some err, a)
      | Inr persisted \<Rightarrow>
          (let a1 = a\<lparr>labels := pLabels persisted, Value := pValue persisted,
                       a_typ := pTyp persisted, opt := opts\<rparr>
           in case NewFsm now (pTyp persisted) of
                Inl err \<Rightarrow> (Some err, a1)
              | Inr f \<Rightarrow>
                  (case Fsm_Restore (pSnapshot persisted) f of
                     (Some err, f') \<Rightarrow> (Some err, a1)
                   | (None, f') \<Rightarrow> (None, a1\<lparr>fsm := f'\<rparr>))))"

section \<open>Rules and their evaluation\<close>

record Sample =
  Metric :: Labels
  F :: float64

record Rule =
  Name :: string
  Expr :: string
  AlertType :: string
  AlertOpts :: AlertOpts
  RuleLabels :: Labels
  Annotations :: Labels
  active :: "(fingerprint \<times> Alert) list"

text \<open>
  The map \<open>active\<close> is an association list without duplicate keys.  Its order is the
  order in which \<open>range\<close> visits the map in the clean-up loop of \<open>Eval\<close>; Go leaves
  that order open, and so does a statement about every such list.
\<close>

definition NewRule ::
  "string \<Rightarrow> string \<Rightarrow> Duration \<Rightarrow> Duration \<Rightarrow> Duration \<Rightarrow> Labels \<Rightarrow> Labels \<Rightarrow> error + Rule" where
  "NewRule name expr hold keepFiring resendDelay lbs ann =
     (if name = [] \<or> expr = [] then Inl EmptyNameOrExpr
      else if hold < 0 \<or> keepFiring < 0 \<or> resendDelay < 0 then Inl NegativeDurations
      else Inr \<lparr>Name = name, Expr = expr, AlertType = [],
                 AlertOpts = \<lparr>HoldDuration = hold, KeepFiringFor = keepFiring,
                   ResendDelay = resendDelay, RecoverDuration = 0, AutoRecoverAfter = 0\<rparr>,
                 RuleLabels = lbs, Annotations = ann, active = []\<rparr>)"

definition newAlert :: "Time \<Rightarrow> Rule \<Rightarrow> Labels \<Rightarrow> error + Alert" where
  "newAlert now r lbs = NewAlert now (AlertType r) lbs (AlertOpts r)"

definition formatLabels :: "Rule \<Rightarrow> Labels \<Rightarrow> Labels" where
  "formatLabels r sampleLabels =
     (let b0 = NewBuilder sampleLabels;
          b1 = fold (\<lambda>l b. if builder_Get b (fst l) = [] then builder_Set b (fst l) (snd l) else b)
                 (RuleLabels r) b0;
          b2 = builder_Del b1 MetricName;
          b3 = builder_Set b2 AlertName (Name r)
      in builder_Labels b3)"

text \<open>
  The state of the first loop of \<open>Eval\<close>: the map \<open>r.active\<close>, the set \<open>activeFPs\<close>,
  the alerts collected so far (each a pointer into the map, here its key), and the
  variable \<open>err\<close> of the function's scope, which \<open>alert, err = r.newAlert(lbs)\<close> assigns.
  The \<open>err\<close> declared by \<open>shouldSend, err := alert.Transition(...)\<close> is a variable of
  the loop body and is not part of this state.
\<close>

record LoopState =
  l_active :: "(fingerprint \<times> Alert) list"
  l_activeFPs :: "fingerprint list"
  l_firing :: "fingerprint list"
  l_err :: "error option"

definition eval_sample ::
  "(Labels \<Rightarrow> fingerprint) \<Rightarrow> Time \<Rightarrow> Time \<Rightarrow> Rule \<Rightarrow> Time \<Rightarrow> Sample \<Rightarrow> LoopState \<Rightarrow> error + LoopState" where
  "eval_sample H now0 now1 r ts sample st =
     (let lbs = formatLabels r (Metric sample);
          fp = H lbs;
          st1 = st\<lparr>l_activeFPs := fp # l_activeFPs st\<rparr>
      in case (case map_of (l_active st1) fp of
                 Some alert \<Rightarrow> Inr (alert, st1)
               | None \<Rightarrow>
                   (case newAlert now0 r lbs of
                      Inl err \<Rightarrow> Inl err
                    | Inr alert \<Rightarrow>
                        Inr (alert, st1\<lparr>l_active := AList.update fp alert (l_active st1),
                                         l_err := None\<rparr>))) of
           Inl err \<Rightarrow> Inl err
         | Inr (alert, st2) \<Rightarrow>
             (case Alert_Transition now1 True ts (SetValue (F sample) alert) of
                ((shouldSend, err), alert') \<Rightarrow>
                  (let st3 = st2\<lparr>l_active := AList.update fp alert' (l_active st2)\<rparr>
                   in if err \<noteq> None then Inr st3
                      else if shouldSend then Inr (st3\<lparr>l_firing := l_firing st3 @ [fp]\<rparr>)
                      else Inr st3)))"

text \<open>
  The first loop.  Sample number \<open>i\<close> reads the clock at most twice: \<open>clk (2 * i)\<close> when
  a Degrade machine is made for a new alert, \<open>clk (2 * i + 1)\<close> in the callback of its
  transition.  On the error of \<open>newAlert\<close> the function returns at once; what earlier
  samples did to the map stays.
\<close>

fun eval_samples ::
  "(Labels \<Rightarrow> fingerprint) \<Rightarrow> (nat \<Rightarrow> Time) \<Rightarrow> Rule \<Rightarrow> Time \<Rightarrow> Sample list \<Rightarrow> LoopState \<Rightarrow>
     error option \<times> LoopState" where
  "eval_samples H clk r ts [] st = (None, st)"
| "eval_samples H clk r ts (sample # vector) st =
     (case eval_sample H (clk 0) (clk 1) r ts sample st of
        Inl err \<Rightarrow> (Some err, st)
      | Inr st' \<Rightarrow> eval_samples H (\<lambda>n. clk (n + 2)) r ts vector st')"

text \<open>
  The clean-up loop over the entries of the map.  The error of
  \<open>alert.Transition(ctx, false, ts)\<close> is dropped; the test \<open>err != nil\<close> reads the
  variable \<open>err\<close> of the function's scope, passed here as \<open>err\<close>.
\<close>

fun cleanup ::
  "(nat \<Rightarrow> Time) \<Rightarrow> Time \<Rightarrow> fingerprint list \<Rightarrow> error option \<Rightarrow> (fingerprint \<times> Alert) list \<Rightarrow>
     (fingerprint \<times> Alert) list \<times> Alert list \<Rightarrow> (fingerprint \<times> Alert) list \<times> Alert list" where
  "cleanup clk ts activeFPs err [] st = st"
| "cleanup clk ts activeFPs err ((fp, alert) # rest) (act, firingAlerts) =
     (if fp \<in> set activeFPs then cleanup clk ts activeFPs err rest (act, firingAlerts)
      else
        (case Alert_Transition (clk 0) False ts alert of
           ((shouldSend, _), alert') \<Rightarrow>
             (let act1 = AList.update fp alert' act
              in if err \<noteq> None then
                   cleanup (\<lambda>n. clk (Suc n)) ts activeFPs err rest (act1, firingAlerts)
                 else if shouldSend then
                   cleanup (\<lambda>n. clk (Suc n)) ts activeFPs err rest
                     (AList.delete fp act1, firingAlerts @ [alert'])
                 else cleanup (\<lambda>n. clk (Suc n)) ts activeFPs err rest (act1, firingAlerts))))"

definition deref :: "(fingerprint \<times> Alert) list \<Rightarrow> fingerprint list \<Rightarrow> Alert list" where
  "deref act fps = List.map_filter (map_of act) fps"

text \<open>
  \<open>Eval\<close> returns the alerts to notify, or an error, together with the rule after the
  call.  The query collaborator is the function \<open>query\<close>.
\<close>

definition Eval ::
  "(Labels \<Rightarrow> fingerprint) \<Rightarrow> (nat \<Rightarrow> Time) \<Rightarrow> Rule \<Rightarrow> Time \<Rightarrow>
     (string \<Rightarrow> Time \<Rightarrow> error + Sample list) \<Rightarrow> (error + Alert list) \<times> Rule" where
  "Eval H clk r ts query =
     (case query (Expr r) ts of
        Inl err \<Rightarrow> (Inl err, r)
      | Inr vector \<Rightarrow>
          (case eval_samples H clk r ts vector
                  \<lparr>l_active = active r, l_activeFPs = [], l_firing = [], l_err = None\<rparr> of
             (Some err, st) \<Rightarrow> (Inl err, r\<lparr>active := l_active st\<rparr>)
           | (None, st) \<Rightarrow>
               (case cleanup (\<lambda>n. clk (2 * length vector + n)) ts (l_activeFPs st) (l_err st)
                       (l_active st) (l_active st, deref (l_active st) (l_firing st)) of
                  (act, firingAlerts) \<Rightarrow> (Inr firingAlerts, r\<lparr>active := act\<rparr>))))"

section \<open>Notifications\<close>

record Notification =
  nRule :: string
  nStatus :: string
  nLabels :: "string \<rightharpoonup> string"
  nValue :: float64
  StartsAt :: Time
  EndsAt :: Time

definition NewNotification :: "Time \<Rightarrow> Rule \<Rightarrow> Alert \<Rightarrow> Notification" where
  "NewNotification now r alert =
     (let snap = Alert_Snapshot alert;
          n = \<lparr>nRule = Name r, nStatus = State snap, nLabels = labels_Map (Alert_Labels alert),
               nValue = GetValue alert, StartsAt = FiredAt snap, EndsAt = 0\<rparr>
      in if State snap = AlertStateInactive \<and> \<not> IsZero (FiredAt snap) then n\<lparr>EndsAt := now\<rparr>
         else n)"

section \<open>The in-memory storage\<close>

text \<open>
  The only field of \<open>MemoryStorage\<close> is a Go map, \<open>None\<close> when it is nil.  No function
  of the package makes the map, so the zero value is the only \<open>MemoryStorage\<close> a caller
  outside the package can have.  A function that can panic returns an \<open>outcome\<close>.
\<close>

datatype 'a outcome = Returned 'a | Panicked string

record 'b MemoryStorage =
  alerts :: "(string \<rightharpoonup> 'b list) option"

definition zeroMemoryStorage :: "'b MemoryStorage" where
  "zeroMemoryStorage = \<lparr>alerts = None\<rparr>"

fun marshal_all :: "(alertPersisted \<Rightarrow> 'b) \<Rightarrow> Alert list \<Rightarrow> error + 'b list" where
  "marshal_all enc [] = Inr []"
| "marshal_all enc (alert # rest) =
     (case Alert_Marshal enc alert of
        Inl err \<Rightarrow> Inl err
      | Inr data \<Rightarrow>
          (case marshal_all enc rest of
             Inl err \<Rightarrow> Inl err
           | Inr raw \<Rightarrow> Inr (data # raw)))"

definition SaveAlerts ::
  "(alertPersisted \<Rightarrow> 'b) \<Rightarrow> 'b MemoryStorage \<Rightarrow> Rule \<Rightarrow> Alert list \<Rightarrow>
     (error option \<times> 'b MemoryStorage) outcome" where
  "SaveAlerts enc m r as =
     (case marshal_all enc as of
        Inl err \<Rightarrow> Returned (Some err, m)
      | Inr raw \<Rightarrow>
          (case alerts m of
             None \<Rightarrow> Panicked ''assignment to entry in nil map''
           | Some tbl \<Rightarrow> Returned (None, m\<lparr>alerts := Some (tbl(Name r \<mapsto> raw))\<rparr>)))"

fun restore_all ::
  "('b \<Rightarrow> alertPersisted option) \<Rightarrow> (nat \<Rightarrow> Time) \<Rightarrow> Rule \<Rightarrow> 'b list \<Rightarrow> error + Alert list" where
  "restore_all dec clk r [] = Inr []"
| "restore_all dec clk r (data # rest) =
     (case NewAlert (clk 0) (AlertType r) EmptyLabels (AlertOpts r) of
        Inl err \<Rightarrow> Inl err
      | Inr alert \<Rightarrow>
          (case Alert_Restore dec (clk 1) data (AlertOpts r) alert of
             (Some err, _) \<Rightarrow> Inl err
           | (None, alert') \<Rightarrow>
               (case restore_all dec (\<lambda>n. clk (n + 2)) r rest of
                  Inl err \<Rightarrow> Inl err
                | Inr as \<Rightarrow> Inr (alert' # as))))"

definition LoadAlerts ::
  "('b \<Rightarrow> alertPersisted option) \<Rightarrow> (nat \<Rightarrow> Time) \<Rightarrow> 'b MemoryStorage \<Rightarrow> Rule \<Rightarrow> error + Alert list" where
  "LoadAlerts dec clk m r =
     (case (case alerts m of None \<Rightarrow> None | Some tbl \<Rightarrow> tbl (Name r)) of
        None \<Rightarrow> Inr []
      | Some raw \<Rightarrow> restore_all dec clk r raw)"

section \<open>Reachable states\<close>

text \<open>
  The states a machine or an alert can be in: those of a fresh one, and those that follow
  from a reachable one by a call with any arguments and any clock reading.
\<close>

inductive prom_reachable :: "PromAlertFsm \<Rightarrow> bool" where
  prom_init: "prom_reachable NewPromAlertFsm"
| prom_step: "prom_reachable a \<Longrightarrow>
     prom_reachable (snd (PromAlertFsm_Transition now act ts opts a))"

inductive degrade_reachable :: "DegradeFsm \<Rightarrow> bool" where
  degrade_init: "degrade_reachable (NewDegradeFsm now)"
| degrade_step: "degrade_reachable d \<Longrightarrow>
     degrade_reachable (snd (DegradeFsm_Transition now act ts opts d))"

inductive alert_reachable :: "Alert \<Rightarrow> bool" where
  alert_new: "NewAlert now t lbs opts = Inr a \<Longrightarrow> alert_reachable a"
| alert_set: "alert_reachable a \<Longrightarrow> alert_reachable (SetValue v a)"
| alert_step: "alert_reachable a \<Longrightarrow> alert_reachable (snd (Alert_Transition now act ts a))"

section \<open>Saturating subtraction against a duration\<close>

lemma Sub_lt_iff:
  "duration_ok h \<Longrightarrow> Sub t u < h \<longleftrightarrow> t - u < h"
  by (auto simp: Sub_def duration_ok_def maxDuration_def minDuration_def Let_def)

lemma Sub_ge_iff: "duration_ok h \<Longrightarrow> h \<le> Sub t u \<longleftrightarrow> h \<le> t - u"
  by (auto simp: Sub_def duration_ok_def maxDuration_def minDuration_def Let_def)

lemma prom_Event_resolve_pending:
  "p_current a = AlertStatePending \<Longrightarrow> prom_Event now EventResolve a = Inr (a\<lparr>p_current := AlertStateInactive\<rparr>)"
  by (simp add: prom_Event_def fsm_Event_def prom_events_def prom_callbacks_def)

lemma prom_Event_resolve_firing:
  "p_current a = AlertStateFiring \<Longrightarrow> prom_Event now EventResolve a = Inr (a\<lparr>p_current := AlertStateInactive, firedAt := 0\<rparr>)"
  by (simp add: prom_Event_def fsm_Event_def prom_events_def prom_callbacks_def)

lemma prom_Event_fire:
  "p_current a = AlertStatePending \<or> p_current a = AlertStateInactive \<Longrightarrow> prom_Event now EventFire a = Inr (a\<lparr>p_current := AlertStateFiring, firedAt := now\<rparr>)"
  by (auto simp add: prom_Event_def fsm_Event_def prom_events_def prom_callbacks_def)

lemma prom_Event_trigger:
  "p_current a = AlertStateInactive \<Longrightarrow> prom_Event now EventTrigger a = Inr (a\<lparr>p_current := AlertStatePending, activeAt := now\<rparr>)"
  by (auto simp add: prom_Event_def fsm_Event_def prom_events_def prom_callbacks_def)

lemma prom_reachable_state:
  "prom_reachable a \<Longrightarrow> p_current a = AlertStateInactive \<or> p_current a = AlertStatePending \<or> p_current a = AlertStateFiring"
proof (induction rule: prom_reachable.induct)
  case prom_init
  then show ?case by (simp add: NewPromAlertFsm_def)
next
  case (prom_step a now act ts opts)
  then show ?case
    by (auto simp: PromAlertFsm_Transition_def Let_def prom_Event_resolve_pending prom_Event_resolve_firing prom_Event_fire prom_Event_trigger)
qed

section \<open>The Basic variant, row by row\<close>

lemma row_inactive_idle:
  "p_current a = AlertStateInactive \<Longrightarrow> PromAlertFsm_Transition now False ts opts a = ((False, None), a)"
  by (simp add: PromAlertFsm_Transition_def)

lemma row_resolve_pending:
  "p_current a = AlertStatePending \<Longrightarrow>
   PromAlertFsm_Transition now False ts opts a = ((True, None), a\<lparr>p_current := AlertStateInactive\<rparr>)"
  by (simp add: PromAlertFsm_Transition_def prom_Event_resolve_pending)

lemma row_resolve_firing:
  "p_current a = AlertStateFiring \<Longrightarrow>
   PromAlertFsm_Transition now False ts opts a =
     ((True, None), a\<lparr>p_current := AlertStateInactive, firedAt := 0\<rparr>)"
  by (simp add: PromAlertFsm_Transition_def prom_Event_resolve_firing)

lemma row_fire_at_once:
  "p_current a = AlertStateInactive \<Longrightarrow> HoldDuration opts = 0 \<Longrightarrow>
   PromAlertFsm_Transition now True ts opts a =
     ((True, None), a\<lparr>p_current := AlertStateFiring, firedAt := now, p_lastSentAt := ts\<rparr>)"
  by (simp add: PromAlertFsm_Transition_def prom_Event_fire)

lemma row_to_pending:
  "p_current a = AlertStateInactive \<Longrightarrow> HoldDuration opts \<noteq> 0 \<Longrightarrow>
   PromAlertFsm_Transition now True ts opts a =
     ((False, None), a\<lparr>p_current := AlertStatePending, activeAt := now\<rparr>)"
  by (simp add: PromAlertFsm_Transition_def prom_Event_trigger)

lemma row_pending_hold:
  "p_current a = AlertStatePending \<Longrightarrow> duration_ok (HoldDuration opts) \<Longrightarrow>
   ts - activeAt a < HoldDuration opts \<Longrightarrow>
   PromAlertFsm_Transition now True ts opts a = ((False, None), a)"
  by (simp add: PromAlertFsm_Transition_def Sub_lt_iff)

lemma row_pending_fire:
  "p_current a = AlertStatePending \<Longrightarrow> duration_ok (HoldDuration opts) \<Longrightarrow>
   HoldDuration opts \<le> ts - activeAt a \<Longrightarrow>
   PromAlertFsm_Transition now True ts opts a =
     ((True, None), a\<lparr>p_current := AlertStateFiring, firedAt := now, p_lastSentAt := ts\<rparr>)"
  by (simp add: PromAlertFsm_Transition_def Sub_lt_iff prom_Event_fire)

lemma row_keep_firing_over:
  "p_current a = AlertStateFiring \<Longrightarrow> duration_ok (KeepFiringFor opts) \<Longrightarrow>
   0 < KeepFiringFor opts \<Longrightarrow> KeepFiringFor opts \<le> ts - firedAt a \<Longrightarrow>
   PromAlertFsm_Transition now True ts opts a =
     ((True, None), a\<lparr>p_current := AlertStateInactive, firedAt := 0\<rparr>)"
  by (simp add: PromAlertFsm_Transition_def Sub_ge_iff prom_Event_resolve_firing)

lemma row_resend:
  "p_current a = AlertStateFiring \<Longrightarrow> duration_ok (KeepFiringFor opts) \<Longrightarrow>
   duration_ok (ResendDelay opts) \<Longrightarrow>
   \<not> (0 < KeepFiringFor opts \<and> KeepFiringFor opts \<le> ts - firedAt a) \<Longrightarrow>
   0 < ResendDelay opts \<Longrightarrow> ResendDelay opts \<le> ts - p_lastSentAt a \<Longrightarrow>
   PromAlertFsm_Transition now True ts opts a = ((True, None), a\<lparr>p_lastSentAt := ts\<rparr>)"
  by (auto simp add: PromAlertFsm_Transition_def Sub_ge_iff)

lemma row_firing_idle:
  "p_current a = AlertStateFiring \<Longrightarrow> duration_ok (KeepFiringFor opts) \<Longrightarrow>
   duration_ok (ResendDelay opts) \<Longrightarrow>
   \<not> (0 < KeepFiringFor opts \<and> KeepFiringFor opts \<le> ts - firedAt a) \<Longrightarrow>
   \<not> (0 < ResendDelay opts \<and> ResendDelay opts \<le> ts - p_lastSentAt a) \<Longrightarrow>
   PromAlertFsm_Transition now True ts opts a = ((False, None), a)"
  by (auto simp add: PromAlertFsm_Transition_def Sub_ge_iff)

text \<open>
  C1, as amended.  For every reachable Basic machine, both values of the flag, every
  \<open>ts\<close>, every clock reading \<open>now\<close> and all options with durations from zero to the
  largest duration, \<open>Transition\<close> follows the table of section 4.1, with one change: on
  entry to Pending \<open>activeAt\<close> is stamped with the clock reading \<open>now\<close> of the callback,
  not with \<open>ts\<close>.  In particular, from Pending with the flag set it returns notify = false
  and changes nothing while \<open>ts - activeAt < HoldDuration\<close>, and moves to Firing with
  \<open>lastSentAt = ts\<close> and notify = true once \<open>ts - activeAt \<ge> HoldDuration\<close>; on entry to
  Firing \<open>firedAt\<close> is stamped with the clock reading, and on leaving Firing for Inactive
  \<open>firedAt\<close> becomes the zero time.  No call returns an error.
\<close>

theorem basic_transition_table:
  assumes "prom_reachable a" and "opts_ok opts"
  shows
   "(p_current a = AlertStateInactive \<longrightarrow>
       PromAlertFsm_Transition now False ts opts a = ((False, None), a)) \<and>
    (p_current a \<noteq> AlertStateInactive \<longrightarrow>
       PromAlertFsm_Transition now False ts opts a =
         ((True, None),
          a\<lparr>p_current := AlertStateInactive,
            firedAt := (if p_current a = AlertStateFiring then 0 else firedAt a)\<rparr>)) \<and>
    (p_current a = AlertStateInactive \<and> HoldDuration opts = 0 \<longrightarrow>
       PromAlertFsm_Transition now True ts opts a =
         ((True, None), a\<lparr>p_current := AlertStateFiring, firedAt := now, p_lastSentAt := ts\<rparr>)) \<and>
    (p_current a = AlertStateInactive \<and> 0 < HoldDuration opts \<longrightarrow>
       PromAlertFsm_Transition now True ts opts a =
         ((False, None), a\<lparr>p_current := AlertStatePending, activeAt := now\<rparr>)) \<and>
    (p_current a = AlertStatePending \<and> ts - activeAt a < HoldDuration opts \<longrightarrow>
       PromAlertFsm_Transition now True ts opts a = ((False, None), a)) \<and>
    (p_current a = AlertStatePending \<and> HoldDuration opts \<le> ts - activeAt a \<longrightarrow>
       PromAlertFsm_Transition now True ts opts a =
         ((True, None), a\<lparr>p_current := AlertStateFiring, firedAt := now, p_lastSentAt := ts\<rparr>)) \<and>
    (p_current a = AlertStateFiring \<and> 0 < KeepFiringFor opts \<and>
     KeepFiringFor opts \<le> ts - firedAt a \<longrightarrow>
       PromAlertFsm_Transition now True ts opts a =
         ((True, None), a\<lparr>p_current := AlertStateInactive, firedAt := 0\<rparr>)) \<and>
    (p_current a = AlertStateFiring \<and>
     \<not> (0 < KeepFiringFor opts \<and> KeepFiringFor opts \<le> ts - firedAt a) \<and>
     0 < ResendDelay opts \<and> ResendDelay opts \<le> ts - p_lastSentAt a \<longrightarrow>
       PromAlertFsm_Transition now True ts opts a = ((True, None), a\<lparr>p_lastSentAt := ts\<rparr>)) \<and>
    (p_current a = AlertStateFiring \<and>
     \<not> (0 < KeepFiringFor opts \<and> KeepFiringFor opts \<le> ts - firedAt a) \<and>
     \<not> (0 < ResendDelay opts \<and> ResendDelay opts \<le> ts - p_lastSentAt a) \<longrightarrow>
       PromAlertFsm_Transition now True ts opts a = ((False, None), a))"
proof -
  from assms(2) have ok: "duration_ok (HoldDuration opts)" "duration_ok (KeepFiringFor opts)"
    "duration_ok (ResendDelay opts)"
    by (simp_all add: opts_ok_def)
  from assms(1) have st: "p_current a = AlertStateInactive \<or> p_current a = AlertStatePending \<or>
    p_current a = AlertStateFiring"
    by (rule prom_reachable_state)
  have r2: "p_current a \<noteq> AlertStateInactive \<longrightarrow>
       PromAlertFsm_Transition now False ts opts a =
         ((True, None),
          a\<lparr>p_current := AlertStateInactive,
            firedAt := (if p_current a = AlertStateFiring then 0 else firedAt a)\<rparr>)"
    using st by (auto simp: row_resolve_pending row_resolve_firing)
  show ?thesis
    using ok r2
    by (intro conjI impI)
      (simp_all add: row_inactive_idle row_fire_at_once row_to_pending row_pending_hold
        row_pending_fire row_keep_firing_over row_resend row_firing_idle)
qed

text \<open>
  The theorem at a fresh machine with a hold of 60, and at the Pending machine that
  follows from it.
\<close>

theorem basic_transition_table_witness:
  "prom_reachable (snd (PromAlertFsm_Transition 1005 True 1000
       \<lparr>HoldDuration = 60, KeepFiringFor = 0, ResendDelay = 0, RecoverDuration = 0,
         AutoRecoverAfter = 0\<rparr> NewPromAlertFsm)) \<and>
   opts_ok \<lparr>HoldDuration = 60, KeepFiringFor = 0, ResendDelay = 0, RecoverDuration = 0,
         AutoRecoverAfter = 0\<rparr> \<and>
   PromAlertFsm_Transition 1005 True 1000
       \<lparr>HoldDuration = 60, KeepFiringFor = 0, ResendDelay = 0, RecoverDuration = 0,
         AutoRecoverAfter = 0\<rparr> NewPromAlertFsm =
     ((False, None), \<lparr>p_current = AlertStatePending, activeAt = 1005, firedAt = 0, p_lastSentAt = 0\<rparr>) \<and>
   PromAlertFsm_Transition 1071 True 1070
       \<lparr>HoldDuration = 60, KeepFiringFor = 0, ResendDelay = 0, RecoverDuration = 0,
         AutoRecoverAfter = 0\<rparr>
       \<lparr>p_current = AlertStatePending, activeAt = 1005, firedAt = 0, p_lastSentAt = 0\<rparr> =
     ((True, None), \<lparr>p_current = AlertStateFiring, activeAt = 1005, firedAt = 1071, p_lastSentAt = 1070\<rparr>)"
proof -
  let ?opts = "\<lparr>HoldDuration = 60, KeepFiringFor = 0, ResendDelay = 0, RecoverDuration = 0,
         AutoRecoverAfter = 0\<rparr>"
  let ?a = "\<lparr>p_current = AlertStatePending, activeAt = 1005, firedAt = 0, p_lastSentAt = 0\<rparr>"
  have ok: "opts_ok ?opts"
    by (simp add: opts_ok_def duration_ok_def maxDuration_def)
  have first: "PromAlertFsm_Transition 1005 True 1000 ?opts NewPromAlertFsm = ((False, None), ?a)"
    using basic_transition_table [OF prom_init ok, of 1005 1000]
    by (simp add: NewPromAlertFsm_def)
  have reach: "prom_reachable (snd (PromAlertFsm_Transition 1005 True 1000 ?opts NewPromAlertFsm))"
    by (rule prom_step [OF prom_init])
  then have reach': "prom_reachable ?a"
    by (simp add: first)
  have second: "PromAlertFsm_Transition 1071 True 1070 ?opts ?a =
     ((True, None), \<lparr>p_current = AlertStateFiring, activeAt = 1005, firedAt = 1071, p_lastSentAt = 1070\<rparr>)"
    using basic_transition_table [OF reach' ok, of 1071 1070]
    by simp
  show ?thesis
    using ok first reach second by simp
qed

text \<open>
  C1 as stated fails in the row Inactive, flag set, \<open>HoldDuration > 0\<close>: the table has
  \<open>activeAt = ts\<close>, the machine has the clock reading of the callback.
\<close>

theorem basic_table_activeAt_counterexample:
  "PromAlertFsm_Transition 1005 True 1000
       \<lparr>HoldDuration = 60, KeepFiringFor = 0, ResendDelay = 0, RecoverDuration = 0,
         AutoRecoverAfter = 0\<rparr> NewPromAlertFsm =
     ((False, None), \<lparr>p_current = AlertStatePending, activeAt = 1005, firedAt = 0, p_lastSentAt = 0\<rparr>) \<and>
   activeAt (snd (PromAlertFsm_Transition 1005 True 1000
       \<lparr>HoldDuration = 60, KeepFiringFor = 0, ResendDelay = 0, RecoverDuration = 0,
         AutoRecoverAfter = 0\<rparr> NewPromAlertFsm)) \<noteq> 1000"
  by (simp add: row_to_pending NewPromAlertFsm_def)

section \<open>The Degrade variant, case by case\<close>

lemma degrade_Event_trigger:
  "d_current d = AlertStateL0 \<Longrightarrow> degrade_Event now EventTrigger d =
     Inr (d\<lparr>d_current := AlertStateL1, stateEnteredAt := (stateEnteredAt d)(AlertStateL1 \<mapsto> now)\<rparr>)"
  "d_current d = AlertStateL1 \<Longrightarrow> degrade_Event now EventTrigger d =
     Inr (d\<lparr>d_current := AlertStateL2, stateEnteredAt := (stateEnteredAt d)(AlertStateL2 \<mapsto> now)\<rparr>)"
  "d_current d = AlertStateL2 \<Longrightarrow> degrade_Event now EventTrigger d =
     Inr (d\<lparr>d_current := AlertStateL3, stateEnteredAt := (stateEnteredAt d)(AlertStateL3 \<mapsto> now)\<rparr>)"
  by (simp_all add: degrade_Event_def fsm_Event_def degrade_events_def)

lemma degrade_Event_recover:
  "d_current d = AlertStateL3 \<Longrightarrow> degrade_Event now EventRecover d =
     Inr (d\<lparr>d_current := AlertStateL2, stateEnteredAt := (stateEnteredAt d)(AlertStateL2 \<mapsto> now)\<rparr>)"
  "d_current d = AlertStateL2 \<Longrightarrow> degrade_Event now EventRecover d =
     Inr (d\<lparr>d_current := AlertStateL1, stateEnteredAt := (stateEnteredAt d)(AlertStateL1 \<mapsto> now)\<rparr>)"
  "d_current d = AlertStateL1 \<Longrightarrow> degrade_Event now EventRecover d =
     Inr (d\<lparr>d_current := AlertStateL0, stateEnteredAt := (stateEnteredAt d)(AlertStateL0 \<mapsto> now)\<rparr>)"
  by (simp_all add: degrade_Event_def fsm_Event_def degrade_events_def)

lemma degrade_Event_resolve:
  "d_current d = AlertStateL1 \<or> d_current d = AlertStateL2 \<or> d_current d = AlertStateL3 \<Longrightarrow>
   degrade_Event now EventResolve d =
     Inr (d\<lparr>d_current := AlertStateL0, stateEnteredAt := (stateEnteredAt d)(AlertStateL0 \<mapsto> now)\<rparr>)"
  by (auto simp add: degrade_Event_def fsm_Event_def degrade_events_def)

lemma degrade_reachable_state:
  "degrade_reachable d \<Longrightarrow>
   d_current d = AlertStateL0 \<or> d_current d = AlertStateL1 \<or> d_current d = AlertStateL2 \<or>
   d_current d = AlertStateL3"
proof (induction rule: degrade_reachable.induct)
  case (degrade_init now)
  then show ?case by (simp add: NewDegradeFsm_def)
next
  case (degrade_step d now act ts opts)
  then show ?case
    by (auto simp: DegradeFsm_Transition_def handleDegradation_def handleRecovery_def
        checkResend_def Let_def degrade_Event_trigger degrade_Event_recover degrade_Event_resolve)
qed

lemma degrade_hold:
  "d_current d \<noteq> AlertStateL3 \<Longrightarrow> duration_ok (HoldDuration opts) \<Longrightarrow>
   ts - enteredAt d (d_current d) < HoldDuration opts \<Longrightarrow>
   DegradeFsm_Transition now True ts opts d = ((False, None), d)"
  by (simp add: DegradeFsm_Transition_def handleDegradation_def Sub_lt_iff)

lemma degrade_up:
  assumes "duration_ok (HoldDuration opts)" "HoldDuration opts \<le> ts - enteredAt d (d_current d)"
  shows "d_current d = AlertStateL0 \<Longrightarrow> DegradeFsm_Transition now True ts opts d =
     ((True, None), d\<lparr>d_current := AlertStateL1,
        stateEnteredAt := (stateEnteredAt d)(AlertStateL1 \<mapsto> now), d_lastSentAt := ts\<rparr>)"
    and "d_current d = AlertStateL1 \<Longrightarrow> DegradeFsm_Transition now True ts opts d =
     ((True, None), d\<lparr>d_current := AlertStateL2,
        stateEnteredAt := (stateEnteredAt d)(AlertStateL2 \<mapsto> now), d_lastSentAt := ts\<rparr>)"
    and "d_current d = AlertStateL2 \<Longrightarrow> DegradeFsm_Transition now True ts opts d =
     ((True, None), d\<lparr>d_current := AlertStateL3,
        stateEnteredAt := (stateEnteredAt d)(AlertStateL3 \<mapsto> now), d_lastSentAt := ts\<rparr>)"
  using assms
  by (simp_all add: DegradeFsm_Transition_def handleDegradation_def Let_def Sub_lt_iff degrade_Event_trigger)

lemma degrade_top:
  assumes "d_current d = AlertStateL3" "duration_ok (ResendDelay opts)"
  shows "0 < ResendDelay opts \<and> ResendDelay opts \<le> ts - d_lastSentAt d \<Longrightarrow>
           DegradeFsm_Transition now True ts opts d = ((True, None), d\<lparr>d_lastSentAt := ts\<rparr>)"
    and "\<not> (0 < ResendDelay opts \<and> ResendDelay opts \<le> ts - d_lastSentAt d) \<Longrightarrow>
           DegradeFsm_Transition now True ts opts d = ((False, None), d)"
  using assms
  by (auto simp add: DegradeFsm_Transition_def handleDegradation_def checkResend_def Let_def Sub_ge_iff
      duration_ok_def)

lemma degrade_idle:
  "d_current d = AlertStateL0 \<Longrightarrow> DegradeFsm_Transition now False ts opts d = ((False, None), d)"
  by (simp add: DegradeFsm_Transition_def)

lemma degrade_auto:
  assumes "d_current d = AlertStateL1 \<or> d_current d = AlertStateL2 \<or> d_current d = AlertStateL3"
    and "duration_ok (AutoRecoverAfter opts)" and "0 < AutoRecoverAfter opts"
    and "AutoRecoverAfter opts \<le> ts - enteredAt d (d_current d)"
  shows "DegradeFsm_Transition now False ts opts d =
     ((True, None), d\<lparr>d_current := AlertStateL0,
        stateEnteredAt := (stateEnteredAt d)(AlertStateL0 \<mapsto> now), d_lastSentAt := ts\<rparr>)"
  using assms
  by (auto simp add: DegradeFsm_Transition_def handleRecovery_def Let_def Sub_ge_iff degrade_Event_resolve)

lemma degrade_wait:
  assumes "d_current d \<noteq> AlertStateL0"
    and "duration_ok (AutoRecoverAfter opts)" and "duration_ok (RecoverDuration opts)"
    and "\<not> (0 < AutoRecoverAfter opts \<and> AutoRecoverAfter opts \<le> ts - enteredAt d (d_current d))"
    and "ts - enteredAt d (d_current d) < RecoverDuration opts"
  shows "DegradeFsm_Transition now False ts opts d = ((False, None), d)"
  using assms
  by (auto simp add: DegradeFsm_Transition_def handleRecovery_def Let_def Sub_ge_iff Sub_lt_iff)

lemma degrade_down:
  assumes "duration_ok (AutoRecoverAfter opts)" and "duration_ok (RecoverDuration opts)"
    and "\<not> (0 < AutoRecoverAfter opts \<and> AutoRecoverAfter opts \<le> ts - enteredAt d (d_current d))"
    and "RecoverDuration opts \<le> ts - enteredAt d (d_current d)"
  shows "d_current d = AlertStateL3 \<Longrightarrow> DegradeFsm_Transition now False ts opts d =
     ((True, None), d\<lparr>d_current := AlertStateL2,
        stateEnteredAt := (stateEnteredAt d)(AlertStateL2 \<mapsto> now), d_lastSentAt := ts\<rparr>)"
    and "d_current d = AlertStateL2 \<Longrightarrow> DegradeFsm_Transition now False ts opts d =
     ((True, None), d\<lparr>d_current := AlertStateL1,
        stateEnteredAt := (stateEnteredAt d)(AlertStateL1 \<mapsto> now), d_lastSentAt := ts\<rparr>)"
    and "d_current d = AlertStateL1 \<Longrightarrow> DegradeFsm_Transition now False ts opts d =
     ((True, None), d\<lparr>d_current := AlertStateL0,
        stateEnteredAt := (stateEnteredAt d)(AlertStateL0 \<mapsto> now), d_lastSentAt := ts\<rparr>)"
  using assms
  by (auto simp add: DegradeFsm_Transition_def handleRecovery_def Let_def Sub_ge_iff Sub_lt_iff
      degrade_Event_recover)

text \<open>
  C2.  For every reachable Degrade machine, every \<open>ts\<close>, every clock reading and all
  options with durations from zero to the largest duration: with the flag set and a
  level below L3, \<open>Transition\<close> changes nothing and returns notify = false while
  \<open>ts - stateEnteredAt[current] < HoldDuration\<close>, and otherwise moves one level up, sets
  \<open>lastSentAt = ts\<close> and returns notify = true; at L3 with the flag set it notifies
  again, setting \<open>lastSentAt = ts\<close>, exactly when \<open>ResendDelay > 0\<close> and
  \<open>ts - lastSentAt \<ge> ResendDelay\<close>; with the flag clear at L0 it does nothing; with the
  flag clear above L0 it resolves to L0 with \<open>lastSentAt = ts\<close> and notify = true when
  \<open>AutoRecoverAfter > 0\<close> and \<open>ts - stateEnteredAt[current] \<ge> AutoRecoverAfter\<close>, and
  otherwise moves one level down, with \<open>lastSentAt = ts\<close> and notify = true, only once
  \<open>ts - stateEnteredAt[current] \<ge> RecoverDuration\<close>.
\<close>

theorem degrade_transition_contract:
  assumes "degrade_reachable d" and "opts_ok opts"
  shows
   "(d_current d \<noteq> AlertStateL3 \<and> ts - enteredAt d (d_current d) < HoldDuration opts \<longrightarrow>
       DegradeFsm_Transition now True ts opts d = ((False, None), d)) \<and>
    (d_current d = AlertStateL0 \<and> HoldDuration opts \<le> ts - enteredAt d AlertStateL0 \<longrightarrow>
       DegradeFsm_Transition now True ts opts d =
         ((True, None), d\<lparr>d_current := AlertStateL1,
            stateEnteredAt := (stateEnteredAt d)(AlertStateL1 \<mapsto> now), d_lastSentAt := ts\<rparr>)) \<and>
    (d_current d = AlertStateL1 \<and> HoldDuration opts \<le> ts - enteredAt d AlertStateL1 \<longrightarrow>
       DegradeFsm_Transition now True ts opts d =
         ((True, None), d\<lparr>d_current := AlertStateL2,
            stateEnteredAt := (stateEnteredAt d)(AlertStateL2 \<mapsto> now), d_lastSentAt := ts\<rparr>)) \<and>
    (d_current d = AlertStateL2 \<and> HoldDuration opts \<le> ts - enteredAt d AlertStateL2 \<longrightarrow>
       DegradeFsm_Transition now True ts opts d =
         ((True, None), d\<lparr>d_current := AlertStateL3,
            stateEnteredAt := (stateEnteredAt d)(AlertStateL3 \<mapsto> now), d_lastSentAt := ts\<rparr>)) \<and>
    (d_current d = AlertStateL3 \<and> 0 < ResendDelay opts \<and>
     ResendDelay opts \<le> ts - d_lastSentAt d \<longrightarrow>
       DegradeFsm_Transition now True ts opts d = ((True, None), d\<lparr>d_lastSentAt := ts\<rparr>)) \<and>
    (d_current d = AlertStateL3 \<and>
     \<not> (0 < ResendDelay opts \<and> ResendDelay opts \<le> ts - d_lastSentAt d) \<longrightarrow>
       DegradeFsm_Transition now True ts opts d = ((False, None), d)) \<and>
    (d_current d = AlertStateL0 \<longrightarrow>
       DegradeFsm_Transition now False ts opts d = ((False, None), d)) \<and>
    (d_current d \<noteq> AlertStateL0 \<and> 0 < AutoRecoverAfter opts \<and>
     AutoRecoverAfter opts \<le> ts - enteredAt d (d_current d) \<longrightarrow>
       DegradeFsm_Transition now False ts opts d =
         ((True, None), d\<lparr>d_current := AlertStateL0,
            stateEnteredAt := (stateEnteredAt d)(AlertStateL0 \<mapsto> now), d_lastSentAt := ts\<rparr>)) \<and>
    (d_current d \<noteq> AlertStateL0 \<and>
     \<not> (0 < AutoRecoverAfter opts \<and> AutoRecoverAfter opts \<le> ts - enteredAt d (d_current d)) \<and>
     ts - enteredAt d (d_current d) < RecoverDuration opts \<longrightarrow>
       DegradeFsm_Transition now False ts opts d = ((False, None), d)) \<and>
    (d_current d = AlertStateL3 \<and>
     \<not> (0 < AutoRecoverAfter opts \<and> AutoRecoverAfter opts \<le> ts - enteredAt d AlertStateL3) \<and>
     RecoverDuration opts \<le> ts - enteredAt d AlertStateL3 \<longrightarrow>
       DegradeFsm_Transition now False ts opts d =
         ((True, None), d\<lparr>d_current := AlertStateL2,
            stateEnteredAt := (stateEnteredAt d)(AlertStateL2 \<mapsto> now), d_lastSentAt := ts\<rparr>)) \<and>
    (d_current d = AlertStateL2 \<and>
     \<not> (0 < AutoRecoverAfter opts \<and> AutoRecoverAfter opts \<le> ts - enteredAt d AlertStateL2) \<and>
     RecoverDuration opts \<le> ts - enteredAt d AlertStateL2 \<longrightarrow>
       DegradeFsm_Transition now False ts opts d =
         ((True, None), d\<lparr>d_current := AlertStateL1,
            stateEnteredAt := (stateEnteredAt d)(AlertStateL1 \<mapsto> now), d_lastSentAt := ts\<rparr>)) \<and>
    (d_current d = AlertStateL1 \<and>
     \<not> (0 < AutoRecoverAfter opts \<and> AutoRecoverAfter opts \<le> ts - enteredAt d AlertStateL1) \<and>
     RecoverDuration opts \<le> ts - enteredAt d AlertStateL1 \<longrightarrow>
       DegradeFsm_Transition now False ts opts d =
         ((True, None), d\<lparr>d_current := AlertStateL0,
            stateEnteredAt := (stateEnteredAt d)(AlertStateL0 \<mapsto> now), d_lastSentAt := ts\<rparr>))"
proof -
  from assms(2) have ok: "duration_ok (HoldDuration opts)" "duration_ok (ResendDelay opts)"
    "duration_ok (RecoverDuration opts)" "duration_ok (AutoRecoverAfter opts)"
    by (simp_all add: opts_ok_def)
  from assms(1) have st: "d_current d = AlertStateL0 \<or> d_current d = AlertStateL1 \<or>
      d_current d = AlertStateL2 \<or> d_current d = AlertStateL3"
    by (rule degrade_reachable_state)
  have auto_resolve: "d_current d \<noteq> AlertStateL0 \<and> 0 < AutoRecoverAfter opts \<and>
     AutoRecoverAfter opts \<le> ts - enteredAt d (d_current d) \<longrightarrow>
       DegradeFsm_Transition now False ts opts d =
         ((True, None), d\<lparr>d_current := AlertStateL0,
            stateEnteredAt := (stateEnteredAt d)(AlertStateL0 \<mapsto> now), d_lastSentAt := ts\<rparr>)"
    using st ok(4) degrade_auto [of d opts ts now] by blast
  show ?thesis
    using ok auto_resolve
    by (intro conjI impI)
      (simp_all add: degrade_hold degrade_up degrade_top degrade_idle degrade_wait degrade_down)
qed

text \<open>The theorem at a fresh machine made at time 1000, with a hold of 60.\<close>

theorem degrade_transition_contract_witness:
  "degrade_reachable (NewDegradeFsm 1000) \<and>
   opts_ok \<lparr>HoldDuration = 60, KeepFiringFor = 0, ResendDelay = 0, RecoverDuration = 60,
            AutoRecoverAfter = 0\<rparr> \<and>
   DegradeFsm_Transition 1062 True 1061
       \<lparr>HoldDuration = 60, KeepFiringFor = 0, ResendDelay = 0, RecoverDuration = 60,
         AutoRecoverAfter = 0\<rparr> (NewDegradeFsm 1000) =
     ((True, None),
      \<lparr>d_current = AlertStateL1,
       stateEnteredAt = [AlertStateL0 \<mapsto> 1000, AlertStateL1 \<mapsto> 1062], d_lastSentAt = 1061\<rparr>) \<and>
   DegradeFsm_Transition 1031 True 1030
       \<lparr>HoldDuration = 60, KeepFiringFor = 0, ResendDelay = 0, RecoverDuration = 60,
         AutoRecoverAfter = 0\<rparr> (NewDegradeFsm 1000) = ((False, None), NewDegradeFsm 1000)"
proof -
  let ?opts = "\<lparr>HoldDuration = 60, KeepFiringFor = 0, ResendDelay = 0, RecoverDuration = 60,
         AutoRecoverAfter = 0\<rparr>"
  have ok: "opts_ok ?opts"
    by (simp add: opts_ok_def duration_ok_def maxDuration_def)
  have reach: "degrade_reachable (NewDegradeFsm 1000)"
    by (rule degrade_init)
  have up: "DegradeFsm_Transition 1062 True 1061 ?opts (NewDegradeFsm 1000) =
     ((True, None),
      \<lparr>d_current = AlertStateL1,
       stateEnteredAt = [AlertStateL0 \<mapsto> 1000, AlertStateL1 \<mapsto> 1062], d_lastSentAt = 1061\<rparr>)"
    using degrade_transition_contract [OF reach ok, of 1061 1062]
    by (simp add: NewDegradeFsm_def enteredAt_def)
  have hold: "DegradeFsm_Transition 1031 True 1030 ?opts (NewDegradeFsm 1000) =
      ((False, None), NewDegradeFsm 1000)"
    using degrade_transition_contract [OF reach ok, of 1030 1031]
    by (simp add: NewDegradeFsm_def enteredAt_def)
  show ?thesis
    using ok reach up hold by simp
qed

section \<open>The hold scenario\<close>

text \<open>
  C8, as amended.  A Basic machine with a hold of one minute starts Inactive.  The
  calls \<open>Transition(true, t0)\<close>, \<open>Transition(true, t0 + 30s)\<close> and
  \<open>Transition(true, t0 + 61s)\<close> give Pending without notify, Pending without notify and
  Firing with notify if and only if the clock reading \<open>now1\<close> stamped into \<open>activeAt\<close>
  on entry to Pending is later than \<open>t0 - 30s\<close> and not later than \<open>t0 + 1s\<close>.
\<close>

theorem hold_scenario:
  assumes "HoldDuration opts = Minute"
  shows
   "(case PromAlertFsm_Transition now1 True t0 opts NewPromAlertFsm of (r1, a1) \<Rightarrow>
     case PromAlertFsm_Transition now2 True (t0 + 30 * Second) opts a1 of (r2, a2) \<Rightarrow>
     case PromAlertFsm_Transition now3 True (t0 + 61 * Second) opts a2 of (r3, a3) \<Rightarrow>
       r1 = (False, None) \<and> p_current a1 = AlertStatePending \<and> activeAt a1 = now1 \<and>
       r2 = (False, None) \<and> p_current a2 = AlertStatePending \<and> activeAt a2 = now1 \<and>
       r3 = (True, None) \<and> p_current a3 = AlertStateFiring \<and> firedAt a3 = now3 \<and>
       p_lastSentAt a3 = t0 + 61 * Second)
    \<longleftrightarrow> t0 - 30 * Second < now1 \<and> now1 \<le> t0 + Second"
proof -
  let ?a1 = "NewPromAlertFsm\<lparr>p_current := AlertStatePending, activeAt := now1\<rparr>"
  have ok: "duration_ok (HoldDuration opts)"
    by (simp add: assms duration_ok_def Minute_def Second_def maxDuration_def)
  have nz: "HoldDuration opts \<noteq> 0"
    by (simp add: assms Minute_def Second_def)
  have s1: "PromAlertFsm_Transition now1 True t0 opts NewPromAlertFsm = ((False, None), ?a1)"
    by (rule row_to_pending) (simp_all add: NewPromAlertFsm_def nz)
  have cur: "p_current ?a1 = AlertStatePending" by simp
  show ?thesis
  proof (cases "t0 + 30 * Second - now1 < Minute")
    case early: True
    then have s2: "PromAlertFsm_Transition now2 True (t0 + 30 * Second) opts ?a1 = ((False, None), ?a1)"
      using row_pending_hold [OF cur ok, of "t0 + 30 * Second" now2] by (simp add: assms)
    show ?thesis
    proof (cases "Minute \<le> t0 + 61 * Second - now1")
      case True
      then have s3: "PromAlertFsm_Transition now3 True (t0 + 61 * Second) opts ?a1 =
          ((True, None), ?a1\<lparr>p_current := AlertStateFiring, firedAt := now3,
             p_lastSentAt := t0 + 61 * Second\<rparr>)"
        using row_pending_fire [OF cur ok, of "t0 + 61 * Second" now3] by (simp add: assms)
      from early True show ?thesis
        by (simp add: s1 s2 s3) (simp add: Minute_def Second_def)
    next
      case False
      then have s3: "PromAlertFsm_Transition now3 True (t0 + 61 * Second) opts ?a1 = ((False, None), ?a1)"
        using row_pending_hold [OF cur ok, of "t0 + 61 * Second" now3] by (simp add: assms)
      from early False show ?thesis
        by (simp add: s1 s2 s3) (simp add: Minute_def Second_def)
    qed
  next
    case False
    then have s2: "PromAlertFsm_Transition now2 True (t0 + 30 * Second) opts ?a1 =
        ((True, None), ?a1\<lparr>p_current := AlertStateFiring, firedAt := now2,
             p_lastSentAt := t0 + 30 * Second\<rparr>)"
      using row_pending_fire [OF cur ok, of "t0 + 30 * Second" now2] by (simp add: assms)
    from False show ?thesis
      by (simp add: s1 s2 split: prod.splits) (simp add: Minute_def Second_def)
  qed
qed

text \<open>The scenario with \<open>t0\<close> at 1000 seconds and a clock that reads \<open>t0\<close> on entry.\<close>

theorem hold_scenario_witness:
  "HoldDuration \<lparr>HoldDuration = Minute, KeepFiringFor = 0, ResendDelay = 0, RecoverDuration = 0,
       AutoRecoverAfter = 0\<rparr> = Minute \<and>
   (case PromAlertFsm_Transition (1000 * Second) True (1000 * Second)
           \<lparr>HoldDuration = Minute, KeepFiringFor = 0, ResendDelay = 0, RecoverDuration = 0,
             AutoRecoverAfter = 0\<rparr> NewPromAlertFsm of (r1, a1) \<Rightarrow>
     case PromAlertFsm_Transition (1030 * Second) True (1030 * Second)
           \<lparr>HoldDuration = Minute, KeepFiringFor = 0, ResendDelay = 0, RecoverDuration = 0,
             AutoRecoverAfter = 0\<rparr> a1 of (r2, a2) \<Rightarrow>
     case PromAlertFsm_Transition (1061 * Second) True (1061 * Second)
           \<lparr>HoldDuration = Minute, KeepFiringFor = 0, ResendDelay = 0, RecoverDuration = 0,
             AutoRecoverAfter = 0\<rparr> a2 of (r3, a3) \<Rightarrow>
       r1 = (False, None) \<and> p_current a1 = AlertStatePending \<and>
       r2 = (False, None) \<and> p_current a2 = AlertStatePending \<and>
       r3 = (True, None) \<and> p_current a3 = AlertStateFiring)"
proof -
  let ?opts = "\<lparr>HoldDuration = Minute, KeepFiringFor = 0, ResendDelay = 0, RecoverDuration = 0,
       AutoRecoverAfter = 0\<rparr>"
  have h: "HoldDuration ?opts = Minute" by simp
  have w: "1000 * Second - 30 * Second < 1000 * Second \<and> 1000 * Second \<le> 1000 * Second + Second"
    by (simp add: Second_def)
  show ?thesis
    using hold_scenario [where opts = ?opts and ?now1.0 = "1000 * Second" and ?t0.0 = "1000 * Second"
        and ?now2.0 = "1030 * Second" and ?now3.0 = "1061 * Second"] w
    by (simp split: prod.splits)
qed

text \<open>
  C8 as stated fails when the clock reads two seconds past \<open>t0\<close> on entry to Pending:
  at \<open>t0 + 61s\<close> only 59 seconds have passed since \<open>activeAt\<close>, and the machine stays
  Pending without notify.
\<close>

theorem hold_scenario_counterexample:
  "(case PromAlertFsm_Transition (1002 * Second) True (1000 * Second)
           \<lparr>HoldDuration = Minute, KeepFiringFor = 0, ResendDelay = 0, RecoverDuration = 0,
             AutoRecoverAfter = 0\<rparr> NewPromAlertFsm of (r1, a1) \<Rightarrow>
     case PromAlertFsm_Transition (1032 * Second) True (1030 * Second)
           \<lparr>HoldDuration = Minute, KeepFiringFor = 0, ResendDelay = 0, RecoverDuration = 0,
             AutoRecoverAfter = 0\<rparr> a1 of (r2, a2) \<Rightarrow>
     case PromAlertFsm_Transition (1063 * Second) True (1061 * Second)
           \<lparr>HoldDuration = Minute, KeepFiringFor = 0, ResendDelay = 0, RecoverDuration = 0,
             AutoRecoverAfter = 0\<rparr> a2 of (r3, a3) \<Rightarrow>
       r1 = (False, None) \<and> p_current a1 = AlertStatePending \<and>
       r2 = (False, None) \<and> p_current a2 = AlertStatePending \<and>
       r3 = (False, None) \<and> p_current a3 = AlertStatePending)"
proof -
  let ?opts = "\<lparr>HoldDuration = Minute, KeepFiringFor = 0, ResendDelay = 0, RecoverDuration = 0,
       AutoRecoverAfter = 0\<rparr>"
  let ?a1 = "NewPromAlertFsm\<lparr>p_current := AlertStatePending, activeAt := 1002 * Second\<rparr>"
  have ok: "duration_ok (HoldDuration ?opts)"
    by (simp add: duration_ok_def Minute_def Second_def maxDuration_def)
  have s1: "PromAlertFsm_Transition (1002 * Second) True (1000 * Second) ?opts NewPromAlertFsm =
      ((False, None), ?a1)"
    by (rule row_to_pending) (simp_all add: NewPromAlertFsm_def Minute_def Second_def)
  have cur: "p_current ?a1 = AlertStatePending" by simp
  have s2: "PromAlertFsm_Transition (1032 * Second) True (1030 * Second) ?opts ?a1 =
      ((False, None), ?a1)"
    by (rule row_pending_hold [OF cur ok]) (simp add: Minute_def Second_def)
  have s3: "PromAlertFsm_Transition (1063 * Second) True (1061 * Second) ?opts ?a1 =
      ((False, None), ?a1)"
    by (rule row_pending_hold [OF cur ok]) (simp add: Minute_def Second_def)
  show ?thesis
    by (simp add: s1 s2 s3)
qed

end
